theory Spec2Isabelle
  imports Main "HOL-Library.Word"
begin

section \<open>The exclusion set\<close>

text \<open>
  Code points are Python ints. The three source sets are module-level constants of
  \<^verbatim>\<open>chws_subset/__init__.py\<close> (lines 15-61).
\<close>

type_synonym codepoint = int

definition EMOJI_IN_CJK :: "codepoint set" where
  "EMOJI_IN_CJK =
     {0x26BD, 0x26BE, 0x1F18E, 0x1F191, 0x1F192, 0x1F193, 0x1F194, 0x1F195, 0x1F196,
      0x1F197, 0x1F198, 0x1F199, 0x1F19A, 0x1F201, 0x1F21A, 0x1F22F, 0x1F232, 0x1F233,
      0x1F234, 0x1F235, 0x1F236, 0x1F238, 0x1F239, 0x1F23A, 0x1F250, 0x1F251}"

definition ANDROID_EMOJI :: "codepoint set" where
  "ANDROID_EMOJI =
     {0x2600, 0x2601, 0x260E, 0x261D, 0x263A, 0x2660, 0x2663, 0x2665, 0x2666, 0x270C,
      0x2744, 0x2764}"

text \<open>
  Modelled from the spec: \<^verbatim>\<open>tool_utils.parse_int_ranges\<close> belongs to the nototools
  package and is not part of the sources. The spec (4.1) describes its use as a range
  expression over an inclusive numeric range that is expanded into individual integers;
  the literal passed to it, \<^verbatim>\<open>"0000-001F"\<close>, is read as hexadecimal. The model splits
  the text at blanks, each word at the hyphen, reads the digits in base 16 and expands
  \<open>lo-hi\<close> to every integer from \<open>lo\<close> to \<open>hi\<close>. \<open>None\<close> stands for the ValueError of
  malformed text.
\<close>

definition hex_digit :: "char \<Rightarrow> int option" where
  "hex_digit c =
     (let n = (of_char c :: nat) in
      if 48 \<le> n \<and> n \<le> 57 then Some (int n - 48)
      else if 97 \<le> n \<and> n \<le> 102 then Some (int n - 87)
      else if 65 \<le> n \<and> n \<le> 70 then Some (int n - 55)
      else None)"

text \<open>
  Modelled from the spec: the digits of one number of the range expression, read in base
  16 from the left (part of the absent \<^verbatim>\<open>parse_int_ranges\<close>).
\<close>

fun int_base16_acc :: "int \<Rightarrow> string \<Rightarrow> int option" where
  "int_base16_acc acc [] = Some acc"
| "int_base16_acc acc (c # cs) =
     (case hex_digit c of
        None \<Rightarrow> None
      | Some d \<Rightarrow> int_base16_acc (16 * acc + d) cs)"

text \<open>
  Modelled from the spec: one number of the range expression; the empty text is not a
  number (part of the absent \<^verbatim>\<open>parse_int_ranges\<close>).
\<close>

definition int_base16 :: "string \<Rightarrow> int option" where
  "int_base16 s = (if s = [] then None else int_base16_acc 0 s)"

text \<open>
  Modelled from the spec: the pieces of a text between the occurrences of a separator
  (part of the absent \<^verbatim>\<open>parse_int_ranges\<close>).
\<close>

fun split_on :: "char \<Rightarrow> string \<Rightarrow> string list" where
  "split_on sep [] = [[]]"
| "split_on sep (c # cs) =
     (if c = sep then [] # split_on sep cs
      else (case split_on sep cs of
              [] \<Rightarrow> [[c]]
            | w # ws \<Rightarrow> (c # w) # ws))"

text \<open>
  Modelled from the spec: one word of the range expression, a single number or an
  inclusive range \<open>lo-hi\<close> expanded into its integers (part of the absent
  \<^verbatim>\<open>parse_int_ranges\<close>).
\<close>

definition parse_range :: "string \<Rightarrow> int list option" where
  "parse_range val =
     (case split_on (CHR ''-'') val of
        [v] \<Rightarrow> map_option (\<lambda>n. [n]) (int_base16 v)
      | [lo, hi] \<Rightarrow>
          (case (int_base16 lo, int_base16 hi) of
             (Some l, Some h) \<Rightarrow> Some [l..h]
           | _ \<Rightarrow> None)
      | _ \<Rightarrow> None)"

text \<open>
  Modelled from the spec: the words of the range expression one after the other; a word
  that is malformed makes the whole expression malformed (part of the absent
  \<^verbatim>\<open>parse_int_ranges\<close>).
\<close>

fun parse_words :: "string list \<Rightarrow> int list option" where
  "parse_words [] = Some []"
| "parse_words (w # ws) =
     (case parse_range w of
        None \<Rightarrow> None
      | Some xs \<Rightarrow> map_option (\<lambda>ys. xs @ ys) (parse_words ws))"

text \<open>
  Modelled from the spec: \<^verbatim>\<open>tool_utils.parse_int_ranges\<close> itself, absent from the
  sources: the range expression expanded into individual integers.
\<close>

definition parse_int_ranges :: "string \<Rightarrow> int list option" where
  "parse_int_ranges range_string =
     parse_words (filter (\<lambda>w. w \<noteq> []) (split_on (CHR '' '') range_string))"

text \<open>
  Line 60. The module is only importable when the call returns, so the \<open>None\<close> branch
  is never taken (lemma \<open>parse_control_range\<close> below); it is there to keep the
  definition total.
\<close>

definition CONTROL_CHARS :: "codepoint set" where
  "CONTROL_CHARS =
     (case parse_int_ranges ''0000-001F'' of
        Some xs \<Rightarrow> set xs
      | None \<Rightarrow> {})"

text \<open>
  Line 61: \<^verbatim>\<open>frozenset(sorted(EMOJI_IN_CJK | ANDROID_EMOJI | CONTROL_CHARS))\<close>. The
  union is sorted into a list, and the list is turned into a set again.
\<close>

definition EXCLUDED_CODEPOINTS :: "codepoint set" where
  "EXCLUDED_CODEPOINTS =
     set (sorted_list_of_set (EMOJI_IN_CJK \<union> ANDROID_EMOJI \<union> CONTROL_CHARS))"

section \<open>Fonts and collections\<close>

text \<open>
  The data model of the spec (section 3): a collection is an ordered sequence of fonts, a
  font owns its character-mapping subtables and its other tables, the latter opaque. A
  subtable is identified by its platform and encoding and maps code points to glyph
  identifiers; the Python dict is a map.
\<close>

type_synonym byte = "8 word"
type_synonym glyph_id = nat

record cmap_subtable =
  platformID :: nat
  platEncID :: nat
  cmap :: "codepoint \<rightharpoonup> glyph_id"

record font =
  cmap_tables :: "cmap_subtable list"
  other_tables :: "(string \<times> byte list) list"

type_synonym ttcollection = "font list"

text \<open>
  Modelled from the spec: the deletion that the absent
  \<^verbatim>\<open>font_data.delete_from_cmap\<close> performs on one subtable's dict. The spec (4.2,
  step 2) has every entry whose key is in the given set deleted; the other entries keep
  their values.
\<close>

definition delete_keys :: "codepoint set \<Rightarrow> (codepoint \<rightharpoonup> glyph_id) \<Rightarrow> (codepoint \<rightharpoonup> glyph_id)" where
  "delete_keys chars m = (\<lambda>c. if c \<in> chars then None else m c)"

text \<open>
  Modelled from the spec: \<^verbatim>\<open>font_data.delete_from_cmap\<close> belongs to the nototools
  package and is not part of the sources. The spec (4.2, step 2) gives its effect on one
  font: for each character-mapping subtable the font owns, delete every entry whose key is
  in the given set; nothing else is mutated. The Python call mutates the font in place;
  the model returns the font after the call.
\<close>

definition delete_from_cmap :: "font \<Rightarrow> codepoint set \<Rightarrow> font" where
  "delete_from_cmap fnt chars =
     fnt\<lparr>cmap_tables := map (\<lambda>t. t\<lparr>cmap := delete_keys chars (cmap t)\<rparr>) (cmap_tables fnt)\<rparr>"

text \<open>
  Lines 69-70 of \<^verbatim>\<open>remove_codepoints_from_ttc\<close>: the loop over the fonts of the loaded
  collection, each font edited with the module's constant set. The fonts are visited in
  the collection's order and stay where they are.
\<close>

definition subset_fonts :: "ttcollection \<Rightarrow> ttcollection" where
  "subset_fonts ttc = map (\<lambda>fnt. delete_from_cmap fnt EXCLUDED_CODEPOINTS) ttc"

section \<open>Paths and the file system\<close>

text \<open>
  A path is the list of its components, as \<^verbatim>\<open>pathlib\<close> keeps them; the empty list is
  the directory all paths start from, which always exists. pathlib has no empty
  component. \<open>path_name\<close> is \<^verbatim>\<open>Path.name\<close> (the last component, empty when there is
  none) and \<open>joinpath d s\<close> is \<^verbatim>\<open>d / s\<close> for one relative segment (joining the empty
  segment gives \<open>d\<close> back).
\<close>

type_synonym path = "string list"

definition valid_path :: "path \<Rightarrow> bool" where
  "valid_path p = ([] \<notin> set p)"

definition path_name :: "path \<Rightarrow> string" where
  "path_name p = (if p = [] then [] else last p)"

definition path_parent :: "path \<Rightarrow> path" where
  "path_parent p = butlast p"

definition joinpath :: "path \<Rightarrow> string \<Rightarrow> path" where
  "joinpath d s = (if s = [] then d else d @ [s])"

datatype node = Dir | File "byte list"

type_synonym filesystem = "path \<rightharpoonup> node"

definition lookup :: "filesystem \<Rightarrow> path \<Rightarrow> node option" where
  "lookup fs p = (if p = [] then Some Dir else fs p)"

definition is_dir :: "filesystem \<Rightarrow> path \<Rightarrow> bool" where
  "is_dir fs p = (lookup fs p = Some Dir)"

text \<open>
  The exceptions that leave the functions, named as the spec names them (section 7):
  \<open>ParseError\<close> for a file that is not a valid collection (fontTools' TTLibError),
  \<open>WriteError\<close> for a path that cannot be opened for writing, \<open>ReadError\<close> for a path
  that cannot be opened for reading, \<open>HTTPError\<close> for a request that gets no response.
\<close>

datatype error = ParseError | ReadError | WriteError | HTTPError

text \<open>
  \<^verbatim>\<open>open(p, "wb")\<close>: raises when \<open>p\<close> is a directory or its parent is not one;
  otherwise the file exists afterwards and is empty, whatever it held before.
\<close>

definition open_wb :: "filesystem \<Rightarrow> path \<Rightarrow> error + filesystem" where
  "open_wb fs p =
     (if is_dir fs p \<or> \<not> is_dir fs (path_parent p) then Inl WriteError
      else Inr (fs(p \<mapsto> File [])))"

text \<open>\<^verbatim>\<open>f.write(chunk)\<close> on the file opened at \<open>p\<close>: the bytes are appended.\<close>

definition write_bytes :: "filesystem \<Rightarrow> path \<Rightarrow> byte list \<Rightarrow> filesystem" where
  "write_bytes fs p bs =
     (case fs p of
        Some (File old) \<Rightarrow> fs(p \<mapsto> File (old @ bs))
      | _ \<Rightarrow> fs)"

section \<open>Loading, editing and saving a collection\<close>

text \<open>
  The calls \<^verbatim>\<open>ttLib.TTCollection(path)\<close> and \<^verbatim>\<open>TTCollection.save\<close> belong to
  fontTools and are not part of the sources. The on-disk format is a parameter of the
  model: \<open>parse\<close> reads the bytes of a file (\<open>None\<close> when they are not a valid collection
  container) and \<open>serialize\<close> produces the bytes of a collection.
\<close>

text \<open>
  Modelled from the spec: \<^verbatim>\<open>ttLib.TTCollection(path)\<close>, absent from the sources.
  Following the spec (4.2, step 1, and section 7), the container at the path is parsed
  into its ordered sequence of fonts, and the call fails with ParseError when the file is
  not a valid collection container. A path that holds no file cannot be read.
\<close>

definition load :: "(byte list \<Rightarrow> ttcollection option) \<Rightarrow> filesystem \<Rightarrow> path \<Rightarrow> error + ttcollection" where
  "load parse fs p =
     (case lookup fs p of
        Some (File bs) \<Rightarrow>
          (case parse bs of
             None \<Rightarrow> Inl ParseError
           | Some ttc \<Rightarrow> Inr ttc)
      | _ \<Rightarrow> Inl ReadError)"

text \<open>
  Modelled from the spec: \<^verbatim>\<open>TTCollection.save(path)\<close>, absent from the sources.
  Following the spec (4.2, step 4), the whole collection is serialized to the path, and
  the call fails with WriteError when the path cannot be written. The path is opened as
  Python opens a file for writing; the spec's other causes of a WriteError (a full disk,
  a missing permission) are outside this file system.
\<close>

definition save :: "(ttcollection \<Rightarrow> byte list) \<Rightarrow> ttcollection \<Rightarrow> filesystem \<Rightarrow> path \<Rightarrow> (error + unit) \<times> filesystem" where
  "save serialize ttc fs p =
     (case open_wb fs p of
        Inl e \<Rightarrow> (Inl e, fs)
      | Inr fs1 \<Rightarrow> (Inr (), write_bytes fs1 p (serialize ttc)))"

text \<open>
  \<^verbatim>\<open>remove_codepoints_from_ttc(ttc_path, out_dir)\<close>, lines 64-79. The function has no
  return statement: its value is Python's None, the unit value here. The result pairs
  the outcome (an exception that leaves the function, or None) with the file system
  afterwards. The logging calls and the \<^verbatim>\<open>stat\<close> calls of lines 74-79 read two files
  that exist when they are reached and change nothing; they are left out.
\<close>

definition remove_codepoints_from_ttc ::
  "(byte list \<Rightarrow> ttcollection option) \<Rightarrow> (ttcollection \<Rightarrow> byte list) \<Rightarrow>
   filesystem \<Rightarrow> path \<Rightarrow> path \<Rightarrow> (error + unit) \<times> filesystem" where
  "remove_codepoints_from_ttc parse serialize fs ttc_path out_dir =
     (case load parse fs ttc_path of
        Inl e \<Rightarrow> (Inl e, fs)
      | Inr ttc \<Rightarrow>
          (let ttc' = subset_fonts ttc;
               out_path = joinpath out_dir (path_name ttc_path)
           in save serialize ttc' fs out_path))"

section \<open>Downloading\<close>

text \<open>
  \<^verbatim>\<open>download_file(url, save_path_file_name)\<close>, lines 85-106. The network is a
  parameter: \<open>http_get url\<close> is the response that \<^verbatim>\<open>httpx.stream("GET", url)\<close> yields,
  with its status code and the chunks of its body, or the error the request raises. The
  destination is opened for writing before the request is made. The progress bar is left
  out.
\<close>

record response =
  status_code :: int
  iter_bytes :: "byte list list"

fun write_chunks :: "filesystem \<Rightarrow> path \<Rightarrow> byte list list \<Rightarrow> filesystem" where
  "write_chunks fs p [] = fs"
| "write_chunks fs p (chunk # chunks) = write_chunks (write_bytes fs p chunk) p chunks"

definition download_file ::
  "(string \<Rightarrow> error + response) \<Rightarrow> filesystem \<Rightarrow> string \<Rightarrow> path \<Rightarrow> (error + bool) \<times> filesystem" where
  "download_file http_get fs url save_path_file_name =
     (case open_wb fs save_path_file_name of
        Inl e \<Rightarrow> (Inl e, fs)
      | Inr fs1 \<Rightarrow>
          (case http_get url of
             Inl e \<Rightarrow> (Inl e, fs1)
           | Inr resp \<Rightarrow>
               if status_code resp \<noteq> 200 then (Inr False, fs1)
               else (Inr True, write_chunks fs1 save_path_file_name (iter_bytes resp))))"

section \<open>Example inputs\<close>

text \<open>
  A font with the subtable of the spec's first scenario, a toy container format that
  accepts one byte sequence, and a file system laid out as
  \<^verbatim>\<open>download_and_patch_noto_cjk_font\<close> leaves it before the subsetting step: the
  patched collection under \<^verbatim>\<open>temp/chws_output\<close> and the directory
  \<^verbatim>\<open>system/fonts\<close>. A file of zero bytes lies beside the collection.
\<close>

definition example_font :: font where
  "example_font =
     \<lparr>cmap_tables = [\<lparr>platformID = 3, platEncID = 10,
                       cmap = [0x0041 \<mapsto> 17, 0x26BD \<mapsto> 302, 0x0009 \<mapsto> 5]\<rparr>],
      other_tables = [(''glyf'', [1, 2, 3])]\<rparr>"

definition example_bytes :: "byte list" where
  "example_bytes = [0x74, 0x74, 0x63, 0x66, 1]"

definition example_parse :: "byte list \<Rightarrow> ttcollection option" where
  "example_parse bs = (if bs = example_bytes then Some [example_font] else None)"

definition example_serialize :: "ttcollection \<Rightarrow> byte list" where
  "example_serialize ttc = [0x74, 0x74, 0x63, 0x66, of_nat (length ttc), 0]"

definition example_input :: path where
  "example_input = [''temp'', ''chws_output'', ''NotoSansCJK.ttc'']"

definition example_empty_input :: path where
  "example_empty_input = [''temp'', ''chws_output'', ''empty.ttc'']"

definition example_fs :: filesystem where
  "example_fs =
     [[''temp''] \<mapsto> Dir,
      [''temp'', ''chws_output''] \<mapsto> Dir,
      example_input \<mapsto> File example_bytes,
      example_empty_input \<mapsto> File [],
      [''system''] \<mapsto> Dir,
      [''system'', ''fonts''] \<mapsto> Dir]"

definition example_http_get :: "string \<Rightarrow> error + response" where
  "example_http_get url =
     (if url = ''https://example.org/a.ttc''
      then Inr \<lparr>status_code = 200, iter_bytes = [[1, 2], [3]]\<rparr>
      else Inr \<lparr>status_code = 404, iter_bytes = [[4, 0, 4]]\<rparr>)"

section \<open>Properties of the exclusion set\<close>

lemma parse_control_range: "parse_int_ranges ''0000-001F'' = Some [0..31]"
  by (simp add: parse_int_ranges_def parse_range_def int_base16_def hex_digit_def)

lemma CONTROL_CHARS_eq: "CONTROL_CHARS = {0..31}"
  by (simp add: CONTROL_CHARS_def parse_control_range)

lemma finite_sources: "finite (EMOJI_IN_CJK \<union> ANDROID_EMOJI \<union> CONTROL_CHARS)"
  by (simp add: EMOJI_IN_CJK_def ANDROID_EMOJI_def CONTROL_CHARS_eq)

lemma EXCLUDED_CODEPOINTS_eq:
  "EXCLUDED_CODEPOINTS = EMOJI_IN_CJK \<union> ANDROID_EMOJI \<union> CONTROL_CHARS"
  unfolding EXCLUDED_CODEPOINTS_def using finite_sources
  by (rule set_sorted_list_of_set)

lemma soccer_ball_excluded: "0x26BD \<in> EXCLUDED_CODEPOINTS"
  by (simp add: EXCLUDED_CODEPOINTS_eq EMOJI_IN_CJK_def)

lemma tab_excluded: "0x0009 \<in> EXCLUDED_CODEPOINTS"
  by (simp add: EXCLUDED_CODEPOINTS_eq CONTROL_CHARS_eq)

lemma latin_A_kept: "0x0041 \<notin> EXCLUDED_CODEPOINTS"
  by (simp add: EXCLUDED_CODEPOINTS_eq CONTROL_CHARS_eq EMOJI_IN_CJK_def ANDROID_EMOJI_def)

text \<open>
  C3. The exclusion set is the union of the emoji-in-CJK list, the Android emoji list and
  the code points from 0x0000 to 0x001F inclusive, and has no other element. It is a
  constant, so every evaluation gives the same set.
\<close>

theorem excluded_codepoints_union:
  "EXCLUDED_CODEPOINTS = EMOJI_IN_CJK \<union> ANDROID_EMOJI \<union> {0x0000..0x001F}"
  by (simp add: EXCLUDED_CODEPOINTS_eq CONTROL_CHARS_eq)

section \<open>Properties of the edit\<close>

lemma dom_delete_keys: "dom (delete_keys chars m) = dom m - chars"
  by (auto simp: delete_keys_def dom_def)

lemma delete_keys_kept: "c \<notin> chars \<Longrightarrow> delete_keys chars m c = m c"
  by (simp add: delete_keys_def)

lemma delete_keys_idem: "delete_keys chars (delete_keys chars m) = delete_keys chars m"
  by (auto simp: delete_keys_def fun_eq_iff)

lemma cmap_tables_delete_from_cmap:
  "cmap_tables (delete_from_cmap fnt chars) =
     map (\<lambda>t. t\<lparr>cmap := delete_keys chars (cmap t)\<rparr>) (cmap_tables fnt)"
  by (simp add: delete_from_cmap_def)


lemma delete_from_cmap_idem:
  "delete_from_cmap (delete_from_cmap fnt chars) chars = delete_from_cmap fnt chars"
  by (simp add: delete_from_cmap_def delete_keys_idem)

lemma length_subset_fonts: "length (subset_fonts ttc) = length ttc"
  by (simp add: subset_fonts_def)

lemma nth_subset_fonts:
  "i < length ttc \<Longrightarrow> subset_fonts ttc ! i = delete_from_cmap (ttc ! i) EXCLUDED_CODEPOINTS"
  by (simp add: subset_fonts_def)

lemma scenario_cmap:
  "delete_keys EXCLUDED_CODEPOINTS [0x0041 \<mapsto> 17, 0x26BD \<mapsto> 302, 0x0009 \<mapsto> 5] =
     [0x0041 \<mapsto> 17]"
  using soccer_ball_excluded tab_excluded latin_A_kept
  by (auto simp: delete_keys_def fun_eq_iff)

lemma subset_example_font:
  "subset_fonts [example_font] =
     [\<lparr>cmap_tables = [\<lparr>platformID = 3, platEncID = 10, cmap = [0x0041 \<mapsto> 17]\<rparr>],
       other_tables = [(''glyf'', [1, 2, 3])]\<rparr>]"
  by (simp add: subset_fonts_def delete_from_cmap_def example_font_def scenario_cmap)

text \<open>
  C1, exclusion completeness. In the collection that the edit saves, no subtable of any
  font has a key in the exclusion set.
\<close>

theorem exclusion_completeness:
  "\<forall>fnt \<in> set (subset_fonts ttc). \<forall>t \<in> set (cmap_tables fnt).
     dom (cmap t) \<inter> EXCLUDED_CODEPOINTS = {}"
proof (intro ballI)
  fix fnt t
  assume "fnt \<in> set (subset_fonts ttc)" and t: "t \<in> set (cmap_tables fnt)"
  then obtain f0 where "fnt = delete_from_cmap f0 EXCLUDED_CODEPOINTS"
    by (auto simp: subset_fonts_def)
  with t obtain t0 where "t = t0\<lparr>cmap := delete_keys EXCLUDED_CODEPOINTS (cmap t0)\<rparr>"
    by (auto simp: cmap_tables_delete_from_cmap)
  then show "dom (cmap t) \<inter> EXCLUDED_CODEPOINTS = {}"
    by (auto simp: dom_delete_keys)
qed

theorem exclusion_completeness_witness:
  "0x26BD \<in> dom (cmap (hd (cmap_tables example_font))) \<and>
   hd (subset_fonts [example_font]) \<in> set (subset_fonts [example_font]) \<and>
   hd (cmap_tables (hd (subset_fonts [example_font])))
     \<in> set (cmap_tables (hd (subset_fonts [example_font]))) \<and>
   dom (cmap (hd (cmap_tables (hd (subset_fonts [example_font]))))) \<inter> EXCLUDED_CODEPOINTS = {}"
proof -
  have k: "0x26BD \<in> dom (cmap (hd (cmap_tables example_font)))"
    by (simp add: example_font_def)
  have m1: "hd (subset_fonts [example_font]) \<in> set (subset_fonts [example_font])"
    by (simp add: subset_example_font)
  have m2: "hd (cmap_tables (hd (subset_fonts [example_font])))
      \<in> set (cmap_tables (hd (subset_fonts [example_font])))"
    by (simp add: subset_example_font)
  from exclusion_completeness [of "[example_font]"] m1 m2
  have "dom (cmap (hd (cmap_tables (hd (subset_fonts [example_font]))))) \<inter> EXCLUDED_CODEPOINTS = {}"
    by blast
  with k m1 m2 show ?thesis by blast
qed

text \<open>
  C2, preservation. A pair (code point, glyph) of a subtable of the input whose code point
  is not in the exclusion set is in the subtable at the same place of the output: the
  same font index and the same subtable index.
\<close>

theorem preservation:
  assumes "i < length ttc" and "j < length (cmap_tables (ttc ! i))"
    and "cmap (cmap_tables (ttc ! i) ! j) c = Some g" and "c \<notin> EXCLUDED_CODEPOINTS"
  shows "cmap (cmap_tables (subset_fonts ttc ! i) ! j) c = Some g"
  using assms
  by (simp add: nth_subset_fonts cmap_tables_delete_from_cmap delete_keys_kept)

theorem preservation_witness:
  "(0::nat) < length [example_font] \<and>
   (0::nat) < length (cmap_tables ([example_font] ! 0)) \<and>
   cmap (cmap_tables ([example_font] ! 0) ! 0) 0x0041 = Some 17 \<and>
   0x0041 \<notin> EXCLUDED_CODEPOINTS \<and>
   cmap (cmap_tables (subset_fonts [example_font] ! 0) ! 0) 0x0041 = Some 17"
proof -
  have h1: "(0::nat) < length [example_font]" by simp
  have h2: "(0::nat) < length (cmap_tables ([example_font] ! 0))"
    by (simp add: example_font_def)
  have h3: "cmap (cmap_tables ([example_font] ! 0) ! 0) 0x0041 = Some 17"
    by (simp add: example_font_def)
  note h4 = latin_A_kept
  from preservation [OF h1 h2 h3 h4] h1 h2 h3 h4 show ?thesis by simp
qed


text \<open>
  C6, idempotence. Deleting a set of code points from a font a second time changes
  nothing, whatever the set; so editing an edited collection gives the edited collection,
  with the same mapping content and the same everything else.
\<close>

theorem idempotence:
  "delete_from_cmap (delete_from_cmap fnt S) S = delete_from_cmap fnt S \<and>
   subset_fonts (subset_fonts ttc) = subset_fonts ttc"
  by (simp add: subset_fonts_def delete_from_cmap_idem)

text \<open>
  C7, scenario 1. A collection of one font whose subtable is 0x0041 to 17, 0x26BD to 302
  and 0x0009 to 5 is edited to the same font with the subtable 0x0041 to 17 alone: 0x26BD
  and 0x0009 are in the exclusion set, 0x0041 is not.
\<close>

theorem scenario_1:
  "subset_fonts
     [\<lparr>cmap_tables = [\<lparr>platformID = p, platEncID = e,
                        cmap = [0x0041 \<mapsto> 17, 0x26BD \<mapsto> 302, 0x0009 \<mapsto> 5]\<rparr>],
       other_tables = ts\<rparr>] =
     [\<lparr>cmap_tables = [\<lparr>platformID = p, platEncID = e, cmap = [0x0041 \<mapsto> 17]\<rparr>],
       other_tables = ts\<rparr>] \<and>
   0x26BD \<in> EMOJI_IN_CJK \<and> 0x0009 \<in> CONTROL_CHARS \<and> 0x0041 \<notin> EXCLUDED_CODEPOINTS"
  by (simp add: subset_fonts_def delete_from_cmap_def scenario_cmap latin_A_kept
      EMOJI_IN_CJK_def CONTROL_CHARS_eq)

section \<open>Properties of the file-level function\<close>

lemma save_cases:
  "save serialize ttc fs p =
     (if is_dir fs p \<or> \<not> is_dir fs (path_parent p) then (Inl WriteError, fs)
      else (Inr (), fs(p \<mapsto> File (serialize ttc))))"
  by (simp add: save_def open_wb_def write_bytes_def)

lemma load_malformed:
  "lookup fs p = Some (File bs) \<Longrightarrow> parse bs = None \<Longrightarrow> load parse fs p = Inl ParseError"
  by (simp add: load_def)

lemma load_Inr_nonempty: "load parse fs p = Inr ttc \<Longrightarrow> p \<noteq> []"
  by (auto simp: load_def lookup_def)


lemma remove_codepoints_success:
  "remove_codepoints_from_ttc parse serialize fs ttc_path out_dir = (Inr u, fs') \<Longrightarrow>
     \<exists>ttc. load parse fs ttc_path = Inr ttc \<and>
       fs' = fs(joinpath out_dir (path_name ttc_path) \<mapsto> File (serialize (subset_fonts ttc)))"
  by (auto simp: remove_codepoints_from_ttc_def save_cases Let_def split: sum.splits if_splits)

lemma joinpath_parent_name:
  "p \<noteq> [] \<Longrightarrow> valid_path p \<Longrightarrow> joinpath (path_parent p) (path_name p) = p"
  by (auto simp: joinpath_def path_parent_def path_name_def valid_path_def dest: last_in_set)

lemma parent_joinpath:
  "p \<noteq> [] \<Longrightarrow> valid_path p \<Longrightarrow> path_parent (joinpath d (path_name p)) = d"
  by (auto simp: joinpath_def path_parent_def path_name_def valid_path_def dest: last_in_set)

lemma example_load: "load example_parse example_fs example_input = Inr [example_font]"
  by (simp add: load_def lookup_def example_fs_def example_input_def example_empty_input_def
      example_parse_def)

lemma example_lookup_empty: "lookup example_fs example_empty_input = Some (File [])"
  by (simp add: lookup_def example_fs_def example_input_def example_empty_input_def)

lemma example_parse_empty: "example_parse [] = None"
  by (simp add: example_parse_def example_bytes_def)

lemma example_input_valid: "valid_path example_input \<and> example_input \<noteq> []"
  by (simp add: valid_path_def example_input_def)

lemma example_input_writable:
  "\<not> is_dir example_fs example_input \<and> is_dir example_fs (path_parent example_input)"
  by (simp add: is_dir_def lookup_def path_parent_def example_fs_def example_input_def
      example_empty_input_def)

lemma example_join_fonts:
  "joinpath [''system'', ''fonts''] (path_name example_input) =
     [''system'', ''fonts'', ''NotoSansCJK.ttc'']"
  by (simp add: joinpath_def path_name_def example_input_def)

lemma example_result_writable:
  "\<not> is_dir example_fs [''system'', ''fonts'', ''NotoSansCJK.ttc''] \<and>
   is_dir example_fs (path_parent [''system'', ''fonts'', ''NotoSansCJK.ttc''])"
  by (simp add: is_dir_def lookup_def path_parent_def example_fs_def example_input_def
      example_empty_input_def)

lemma example_run:
  "remove_codepoints_from_ttc example_parse example_serialize example_fs example_input
      [''system'', ''fonts''] =
   (Inr (), example_fs([''system'', ''fonts'', ''NotoSansCJK.ttc''] \<mapsto>
      File (example_serialize (subset_fonts [example_font]))))"
  by (simp add: remove_codepoints_from_ttc_def example_load save_cases example_join_fonts
      example_result_writable)

lemma example_run_empty:
  "remove_codepoints_from_ttc example_parse example_serialize example_fs example_empty_input
      [''system'', ''fonts''] = (Inl ParseError, example_fs)"
  using load_malformed [of example_fs example_empty_input "[]" example_parse]
    example_lookup_empty example_parse_empty
  by (simp add: remove_codepoints_from_ttc_def)

lemma example_run_in_place:
  "remove_codepoints_from_ttc example_parse example_serialize example_fs example_input
      (path_parent example_input) =
   (Inr (), example_fs(example_input \<mapsto> File (example_serialize (subset_fonts [example_font]))))"
  using example_input_valid
  by (simp add: remove_codepoints_from_ttc_def example_load save_cases joinpath_parent_name
      example_input_writable)

lemma not_dir_missing: "\<not> is_dir example_fs [''system'', ''missing'']"
  by (simp add: is_dir_def lookup_def example_fs_def example_input_def example_empty_input_def)

lemma not_dir_result: "\<not> is_dir example_fs [''result'']"
  by (simp add: is_dir_def lookup_def example_fs_def example_input_def example_empty_input_def)

lemma example_run_missing:
  "\<not> is_dir example_fs d \<Longrightarrow>
   remove_codepoints_from_ttc example_parse example_serialize example_fs example_input d =
     (Inl WriteError, example_fs)"
  using example_input_valid
  by (simp add: remove_codepoints_from_ttc_def example_load save_cases parent_joinpath)



text \<open>
  C8, as the claim states it, fails: the function returns no value, and with the input
  file's own directory as output directory the output path is the input path, so the
  input is overwritten in place.
\<close>

theorem output_path_counterexample:
  "joinpath (path_parent example_input) (path_name example_input) = example_input \<and>
   example_fs example_input = Some (File example_bytes) \<and>
   fst (remove_codepoints_from_ttc example_parse example_serialize example_fs example_input
         (path_parent example_input)) = Inr () \<and>
   snd (remove_codepoints_from_ttc example_parse example_serialize example_fs example_input
         (path_parent example_input)) example_input =
     Some (File (example_serialize (subset_fonts [example_font]))) \<and>
   example_serialize (subset_fonts [example_font]) \<noteq> example_bytes"
proof -
  have "example_fs example_input = Some (File example_bytes)"
    by (simp add: example_fs_def example_input_def example_empty_input_def)
  moreover have "example_serialize (subset_fonts [example_font]) \<noteq> example_bytes"
    by (simp add: example_serialize_def example_bytes_def)
  ultimately show ?thesis
    using example_input_valid by (simp add: example_run_in_place joinpath_parent_name)
qed

text \<open>
  C8, amended. The function returns no value. When it succeeds, the input was a valid
  collection, the edited collection is written at the output directory joined with the
  input file's base name, and no other path changes; with the input file's own directory
  as output directory, that path is the input path.
\<close>

theorem output_path_amended:
  assumes "remove_codepoints_from_ttc parse serialize fs ttc_path out_dir = (Inr u, fs')"
    and "valid_path ttc_path"
  shows "(\<exists>ttc. load parse fs ttc_path = Inr ttc \<and>
           fs' = fs(joinpath out_dir (path_name ttc_path) \<mapsto> File (serialize (subset_fonts ttc)))) \<and>
         joinpath (path_parent ttc_path) (path_name ttc_path) = ttc_path"
proof -
  from assms(1) obtain ttc where ttc: "load parse fs ttc_path = Inr ttc"
    and fs': "fs' = fs(joinpath out_dir (path_name ttc_path) \<mapsto> File (serialize (subset_fonts ttc)))"
    using remove_codepoints_success by blast
  from ttc have "ttc_path \<noteq> []" by (rule load_Inr_nonempty)
  with assms(2) have "joinpath (path_parent ttc_path) (path_name ttc_path) = ttc_path"
    by (simp add: joinpath_parent_name)
  with ttc fs' show ?thesis by blast
qed

theorem output_path_amended_witness:
  "remove_codepoints_from_ttc example_parse example_serialize example_fs example_input
      [''system'', ''fonts''] =
     (Inr (), example_fs([''system'', ''fonts'', ''NotoSansCJK.ttc''] \<mapsto>
        File (example_serialize (subset_fonts [example_font])))) \<and>
   valid_path example_input \<and>
   (\<exists>ttc. load example_parse example_fs example_input = Inr ttc \<and>
      example_fs([''system'', ''fonts'', ''NotoSansCJK.ttc''] \<mapsto>
        File (example_serialize (subset_fonts [example_font]))) =
      example_fs(joinpath [''system'', ''fonts''] (path_name example_input) \<mapsto>
        File (example_serialize (subset_fonts ttc)))) \<and>
   joinpath (path_parent example_input) (path_name example_input) = example_input"
  using output_path_amended [OF example_run] example_input_valid example_run
  by blast

text \<open>
  C9, as the claim states it, fails: with an output directory that does not exist the
  function raises, and no directory has been created.
\<close>

theorem output_dir_counterexample:
  "\<not> is_dir example_fs [''system'', ''missing''] \<and>
   remove_codepoints_from_ttc example_parse example_serialize example_fs example_input
     [''system'', ''missing''] = (Inl WriteError, example_fs)"
  using not_dir_missing by (simp add: example_run_missing)

text \<open>
  C9, amended. The function does not create the output directory: when the directory
  does not exist the call fails and leaves the file system as it was, the directory still
  missing.
\<close>

theorem output_dir_amended:
  assumes "valid_path ttc_path" and "\<not> is_dir fs out_dir"
  shows "\<exists>e. remove_codepoints_from_ttc parse serialize fs ttc_path out_dir = (Inl e, fs)"
proof (cases "load parse fs ttc_path")
  case (Inl e)
  then show ?thesis by (simp add: remove_codepoints_from_ttc_def)
next
  case (Inr ttc)
  then have "ttc_path \<noteq> []" by (rule load_Inr_nonempty)
  with assms(1) have "path_parent (joinpath out_dir (path_name ttc_path)) = out_dir"
    by (simp add: parent_joinpath)
  with assms(2) Inr show ?thesis
    by (simp add: remove_codepoints_from_ttc_def save_cases Let_def)
qed

theorem output_dir_amended_witness:
  "valid_path example_input \<and> \<not> is_dir example_fs [''result''] \<and>
   (\<exists>e. remove_codepoints_from_ttc example_parse example_serialize example_fs example_input
      [''result''] = (Inl e, example_fs))"
  using output_dir_amended [of example_input example_fs "[''result'']" example_parse example_serialize]
    example_input_valid not_dir_result
  by blast

section \<open>Properties of the download\<close>

text \<open>
  C10. When the response to the GET has a status code other than 200, and the destination
  could be opened for writing, the function returns False and the destination is an empty
  file: created if it was not there, emptied if it was.
\<close>

theorem download_file_failed_status:
  assumes "http_get url = Inr resp" and "status_code resp \<noteq> 200"
    and "\<not> is_dir fs p" and "is_dir fs (path_parent p)"
  shows "download_file http_get fs url p = (Inr False, fs(p \<mapsto> File []))"
  using assms by (simp add: download_file_def open_wb_def)

theorem download_file_failed_status_witness:
  "example_http_get ''https://example.org/b.ttc'' = Inr \<lparr>status_code = 404, iter_bytes = [[4, 0, 4]]\<rparr> \<and>
   status_code \<lparr>status_code = 404, iter_bytes = [[4, 0, 4 :: byte]]\<rparr> \<noteq> 200 \<and>
   \<not> is_dir example_fs example_input \<and> is_dir example_fs (path_parent example_input) \<and>
   example_fs example_input = Some (File example_bytes) \<and>
   download_file example_http_get example_fs ''https://example.org/b.ttc'' example_input =
     (Inr False, example_fs(example_input \<mapsto> File []))"
proof -
  have h1: "example_http_get ''https://example.org/b.ttc'' =
      Inr \<lparr>status_code = 404, iter_bytes = [[4, 0, 4]]\<rparr>"
    by (simp add: example_http_get_def)
  have h2: "status_code \<lparr>status_code = 404, iter_bytes = [[4, 0, 4 :: byte]]\<rparr> \<noteq> 200"
    by simp
  have h3: "\<not> is_dir example_fs example_input" and h4: "is_dir example_fs (path_parent example_input)"
    using example_input_writable by simp_all
  have h5: "example_fs example_input = Some (File example_bytes)"
    by (simp add: example_fs_def example_input_def example_empty_input_def)
  from download_file_failed_status [of example_http_get "''https://example.org/b.ttc''"
      "\<lparr>status_code = 404, iter_bytes = [[4, 0, 4]]\<rparr>" example_fs example_input]
    h1 h2 h3 h4
  have "download_file example_http_get example_fs ''https://example.org/b.ttc'' example_input =
      (Inr False, example_fs(example_input \<mapsto> File []))"
    by blast
  with h1 h2 h3 h4 h5 show ?thesis by blast
qed

end
